theory Spec2Isabelle
  imports Main "HOL-Library.Multiset" "HOL-Library.Product_Lexorder"
begin

section \<open>Data model\<close>

text \<open>
  The server (\<^verbatim>\<open>server.ts\<close>) keeps two Firestore collections, \<^verbatim>\<open>users\<close> and
  \<^verbatim>\<open>blogs\<close>. A document is modelled as a record of the fields the handlers write; a
  field that may be absent or \<^verbatim>\<open>null\<close> is an \<open>option\<close>. A collection is the list of its
  (document id, document) pairs in the order in which the store returns them for a
  query without \<^verbatim>\<open>orderBy\<close>.
\<close>

datatype timestamp = Timestamp (seconds: int) (nanoseconds: nat)

record blog =
  user_id :: "string option"
  title :: string
  content :: string
  excerpt :: string
  tone :: string
  language :: string
  created_at :: "timestamp option"
  updated_at :: "timestamp option"

record user =
  username :: string
  password :: "string option"
  role :: "string option"
  email :: "string option"
  google_id :: "string option"
  avatar :: "string option"
  user_created_at :: "timestamp option"

record db =
  usersCol :: "(string \<times> user) list"
  blogsCol :: "(string \<times> blog) list"

text \<open>
  The payload of a token, \<^verbatim>\<open>{ id, username, role }\<close>, which the middleware stores in
  \<^verbatim>\<open>req.user\<close>; the same three fields are the public projection of a user that
  registration and login return.
\<close>

record claims =
  claim_id :: string
  claim_username :: string
  claim_role :: string

text \<open>
  The JSON body of a blog request, an object as the body parser provides it, with
  text fields. A field that the body does not carry is \<^verbatim>\<open>undefined\<close> after
  destructuring: \<open>None\<close>.
\<close>

record blog_body =
  b_title :: "string option"
  b_content :: "string option"
  b_excerpt :: "string option"
  b_tone :: "string option"
  b_language :: "string option"

text \<open>
  What a handler sends: \<^verbatim>\<open>res.status(n).json({ error: msg })\<close> is \<open>Error n msg\<close>, and a
  success with status \<open>n\<close> and payload \<open>x\<close> is \<open>Ok n x\<close>. The spec's error names are
  the statuses: 401 \<^verbatim>\<open>Unauthorized\<close>, 403 \<^verbatim>\<open>Forbidden\<close>, 404 \<^verbatim>\<open>NotFound\<close>.
\<close>

datatype 'a reply = Error nat string | Ok nat 'a

section \<open>The document store\<close>

text \<open>
  Modelled from the spec: the collaborator store (Firestore) is not part of the
  repository. Only the operations the handlers call are modelled: reading, updating and
  deleting one document by id, adding a document, and the query operators
  \<^verbatim>\<open>where(f, '==', v)\<close>, \<^verbatim>\<open>orderBy(f, 'desc')\<close> and \<^verbatim>\<open>limit(n)\<close>.
\<close>

definition doc_get :: "(string \<times> 'd) list \<Rightarrow> string \<Rightarrow> 'd option" where
  "doc_get col i = map_of col i"

definition doc_update :: "(string \<times> 'd) list \<Rightarrow> string \<Rightarrow> ('d \<Rightarrow> 'd) \<Rightarrow> (string \<times> 'd) list" where
  "doc_update col i f = map (\<lambda>(j, d). if j = i then (j, f d) else (j, d)) col"

definition doc_delete :: "(string \<times> 'd) list \<Rightarrow> string \<Rightarrow> (string \<times> 'd) list" where
  "doc_delete col i = filter (\<lambda>(j, d). j \<noteq> i) col"

text \<open>
  \<^verbatim>\<open>add\<close> stores the document under an id the store generates; where the new
  document stands among the others is the store's choice too (\<open>pos\<close>).
\<close>

definition col_add :: "(string \<times> 'd) list \<Rightarrow> nat \<Rightarrow> string \<Rightarrow> 'd \<Rightarrow> (string \<times> 'd) list" where
  "col_add col pos i d = take pos col @ (i, d) # drop pos col"

definition where_eq :: "('d \<Rightarrow> 'v) \<Rightarrow> 'v \<Rightarrow> (string \<times> 'd) list \<Rightarrow> (string \<times> 'd) list" where
  "where_eq field v col = filter (\<lambda>(j, d). field d = v) col"

definition limit :: "nat \<Rightarrow> (string \<times> 'd) list \<Rightarrow> (string \<times> 'd) list" where
  "limit n col = take n col"

text \<open>
  The store compares two timestamps by their seconds, then by their nanoseconds.
  \<^verbatim>\<open>orderBy(f, 'desc')\<close> returns the documents that have the field \<open>f\<close>, the
  greatest value first; documents with the same value come in the reverse of their
  unordered sequence.
\<close>

definition ts_key :: "timestamp \<Rightarrow> int \<times> nat" where
  "ts_key t = (seconds t, nanoseconds t)"

definition order_by_desc :: "('d \<Rightarrow> timestamp option) \<Rightarrow> (string \<times> 'd) list \<Rightarrow> (string \<times> 'd) list" where
  "order_by_desc field col =
     rev (sort_key (\<lambda>x. case field (snd x) of Some t \<Rightarrow> ts_key t | None \<Rightarrow> (0, 0))
            (filter (\<lambda>x. field (snd x) \<noteq> None) col))"

section \<open>Blog routes: update and delete\<close>

text \<open>
  \<^verbatim>\<open>PUT /api/blogs/:id\<close> after \<^verbatim>\<open>authenticateToken\<close>: \<open>user\<close> is \<^verbatim>\<open>req.user\<close> and \<open>now\<close>
  the server timestamp the store writes. Firestore refuses a field value
  \<^verbatim>\<open>undefined\<close>; the handler's \<^verbatim>\<open>catch\<close> turns that into status 500.
\<close>

definition put_blog :: "claims \<Rightarrow> string \<Rightarrow> blog_body \<Rightarrow> timestamp \<Rightarrow> db \<Rightarrow> string reply \<times> db" where
  "put_blog user blogId body now s =
     (case doc_get (blogsCol s) blogId of
        None \<Rightarrow> (Error 404 ''Blog not found'', s)
      | Some blogData \<Rightarrow>
          if claim_role user \<noteq> ''admin'' \<and> user_id blogData \<noteq> Some (claim_id user)
          then (Error 403 ''Unauthorized to edit this blog'', s)
          else (case (b_title body, b_content body, b_excerpt body) of
                  (Some t, Some c, Some e) \<Rightarrow>
                    (Ok 200 ''Blog updated successfully'',
                     s\<lparr>blogsCol := doc_update (blogsCol s) blogId
                          (\<lambda>b. b\<lparr>title := t, content := c, excerpt := e, updated_at := Some now\<rparr>)\<rparr>)
                | _ \<Rightarrow> (Error 500 ''Internal server error'', s)))"

text \<open>\<^verbatim>\<open>DELETE /api/blogs/:id\<close> after \<^verbatim>\<open>authenticateToken\<close>.\<close>

definition delete_blog :: "claims \<Rightarrow> string \<Rightarrow> db \<Rightarrow> string reply \<times> db" where
  "delete_blog user blogId s =
     (case doc_get (blogsCol s) blogId of
        None \<Rightarrow> (Error 404 ''Blog not found'', s)
      | Some blogData \<Rightarrow>
          if claim_role user \<noteq> ''admin'' \<and> user_id blogData \<noteq> Some (claim_id user)
          then (Error 403 ''Unauthorized to delete this blog'', s)
          else (Ok 200 ''Blog deleted successfully'',
                s\<lparr>blogsCol := doc_delete (blogsCol s) blogId\<rparr>))"

section \<open>Authentication middleware\<close>

text \<open>
  \<^verbatim>\<open>String.prototype.split\<close> with a one-character separator: the pieces between the
  separators, so a string without the separator gives one piece and the empty string
  gives one empty piece.
\<close>

fun split_on :: "char \<Rightarrow> string \<Rightarrow> string list" where
  "split_on c [] = [[]]"
| "split_on c (x # xs) =
     (if x = c then [] # split_on c xs
      else (case split_on c xs of w # ws \<Rightarrow> (x # w) # ws | [] \<Rightarrow> [[x]]))"

text \<open>
  \<^verbatim>\<open>authHeader && authHeader.split(' ')[1]\<close>: \<open>None\<close> is \<^verbatim>\<open>undefined\<close> (no header, or a
  header with no second piece); an empty header gives the empty string.
\<close>

definition header_token :: "string option \<Rightarrow> string option" where
  "header_token authHeader =
     (case authHeader of
        None \<Rightarrow> None
      | Some h \<Rightarrow>
          if h = [] then Some []
          else (case split_on CHR '' '' h of _ # t # _ \<Rightarrow> Some t | _ \<Rightarrow> None))"

text \<open>
  The token library (\<^verbatim>\<open>jsonwebtoken\<close>) is a parameter of the middleware:
  \<open>verify token secret\<close> is what \<^verbatim>\<open>jwt.verify\<close> hands to the callback, \<open>Inl\<close> the error
  and \<open>Inr\<close> the decoded payload.
\<close>

datatype jwt_error = Expired | Invalid

text \<open>
  \<^verbatim>\<open>authenticateToken\<close> (strict mode): \<open>Inl\<close> is the response that ends the request,
  \<open>Inr\<close> the \<^verbatim>\<open>req.user\<close> with which \<^verbatim>\<open>next()\<close> is called.
\<close>

definition authenticateToken ::
  "(string \<Rightarrow> string \<Rightarrow> jwt_error + claims) \<Rightarrow> string \<Rightarrow> string option \<Rightarrow> 'a reply + claims" where
  "authenticateToken verify JWT_SECRET authHeader =
     (case header_token authHeader of
        None \<Rightarrow> Inl (Error 401 ''Unauthorized'')
      | Some token \<Rightarrow>
          if token = [] then Inl (Error 401 ''Unauthorized'')
          else (case verify token JWT_SECRET of
                  Inl err \<Rightarrow> Inl (Error 403 ''Forbidden'')
                | Inr user \<Rightarrow> Inr user))"

text \<open>
  \<^verbatim>\<open>tryAuthenticate\<close> (best-effort mode) always calls \<^verbatim>\<open>next()\<close>; the result is
  \<^verbatim>\<open>req.user\<close>, \<open>None\<close> for \<^verbatim>\<open>null\<close>.
\<close>

definition tryAuthenticate ::
  "(string \<Rightarrow> string \<Rightarrow> jwt_error + claims) \<Rightarrow> string \<Rightarrow> string option \<Rightarrow> claims option" where
  "tryAuthenticate verify JWT_SECRET authHeader =
     (case header_token authHeader of
        None \<Rightarrow> None
      | Some token \<Rightarrow>
          if token = [] then None
          else (case verify token JWT_SECRET of
                  Inl err \<Rightarrow> None
                | Inr user \<Rightarrow> Some user))"

text \<open>
  A route \<^verbatim>\<open>app.METHOD(path, middleware, handler)\<close>: the handler runs only when the
  middleware calls \<^verbatim>\<open>next()\<close>.
\<close>

definition strict_route ::
  "(string \<Rightarrow> string \<Rightarrow> jwt_error + claims) \<Rightarrow> string \<Rightarrow> string option \<Rightarrow>
   (claims \<Rightarrow> db \<Rightarrow> 'a reply \<times> db) \<Rightarrow> db \<Rightarrow> 'a reply \<times> db" where
  "strict_route verify JWT_SECRET authHeader handler s =
     (case authenticateToken verify JWT_SECRET authHeader of
        Inl response \<Rightarrow> (response, s)
      | Inr user \<Rightarrow> handler user s)"

definition best_effort_route ::
  "(string \<Rightarrow> string \<Rightarrow> jwt_error + claims) \<Rightarrow> string \<Rightarrow> string option \<Rightarrow>
   (claims option \<Rightarrow> db \<Rightarrow> 'a reply \<times> db) \<Rightarrow> db \<Rightarrow> 'a reply \<times> db" where
  "best_effort_route verify JWT_SECRET authHeader handler s =
     handler (tryAuthenticate verify JWT_SECRET authHeader) s"

section \<open>Registration and login\<close>

text \<open>
  \<^verbatim>\<open>String.prototype.toLowerCase\<close> on the ASCII letters. A \<open>char\<close> is a byte, so a
  character beyond ASCII is a sequence of bytes from 128 on, which this function leaves
  as they are; no such character has a lower case among the letters of \<^verbatim>\<open>admin\<close>.
\<close>

definition lower_char :: "char \<Rightarrow> char" where
  "lower_char c =
     (let n = (of_char c :: nat) in if 65 \<le> n \<and> n \<le> 90 then char_of (n + 32) else c)"

definition toLowerCase :: "string \<Rightarrow> string" where
  "toLowerCase str = map lower_char str"

text \<open>A JavaScript value that is a string or \<^verbatim>\<open>undefined\<close> is truthy when it is a
  non-empty string.\<close>

definition truthy :: "string option \<Rightarrow> bool" where
  "truthy v = (case v of None \<Rightarrow> False | Some x \<Rightarrow> x \<noteq> [])"

text \<open>
  \<^verbatim>\<open>POST /api/auth/register\<close>. The password library (\<^verbatim>\<open>bcryptjs\<close>) is a parameter:
  \<open>hash p 10\<close> is what \<^verbatim>\<open>bcrypt.hash(p, 10)\<close> resolves to. \<open>newId\<close> and \<open>pos\<close> are the
  store's choices for the new document and \<open>now\<close> its server timestamp. A query for the
  value \<^verbatim>\<open>undefined\<close> and a hash of \<^verbatim>\<open>undefined\<close> throw; the \<^verbatim>\<open>catch\<close> answers 500.
\<close>

definition register ::
  "(string \<Rightarrow> nat \<Rightarrow> string) \<Rightarrow> string option \<Rightarrow> string option \<Rightarrow> string \<Rightarrow> nat \<Rightarrow> timestamp \<Rightarrow>
   db \<Rightarrow> claims reply \<times> db" where
  "register hash uname pw newId pos now s =
     (if truthy uname \<and> map_option toLowerCase uname = Some ''admin''
      then (Error 400 ''Cannot register with this username'', s)
      else (case uname of
              None \<Rightarrow> (Error 500 ''Internal server error'', s)
            | Some u \<Rightarrow>
                if limit 1 (where_eq username u (usersCol s)) \<noteq> []
                then (Error 400 ''Username already exists'', s)
                else (case pw of
                        None \<Rightarrow> (Error 500 ''Internal server error'', s)
                      | Some p \<Rightarrow>
                          (Ok 201 \<lparr>claim_id = newId, claim_username = u, claim_role = ''user''\<rparr>,
                           s\<lparr>usersCol := col_add (usersCol s) pos newId
                                \<lparr>username = u, password = Some (hash p 10), role = Some ''user'',
                                 email = None, google_id = None, avatar = None,
                                 user_created_at = Some now\<rparr>\<rparr>))))"

text \<open>\<^verbatim>\<open>userData.role || 'user'\<close>.\<close>

definition role_or_user :: "string option \<Rightarrow> string" where
  "role_or_user r = (case r of None \<Rightarrow> ''user'' | Some x \<Rightarrow> if x = [] then ''user'' else x)"

text \<open>The option \<^verbatim>\<open>{ expiresIn: '24h' }\<close>, in seconds.\<close>

definition expiresIn :: nat where
  "expiresIn = 24 * 60 * 60"

text \<open>
  \<^verbatim>\<open>POST /api/auth/login\<close>. \<open>sign payload secret span\<close> is what \<^verbatim>\<open>jwt.sign\<close> returns and
  \<open>compare p h\<close> what \<^verbatim>\<open>bcrypt.compare(p, h)\<close> resolves to. The handler writes nothing.
\<close>

definition login ::
  "(claims \<Rightarrow> string \<Rightarrow> nat \<Rightarrow> 'tok) \<Rightarrow> (string \<Rightarrow> string \<Rightarrow> bool) \<Rightarrow> string \<Rightarrow>
   string option \<Rightarrow> string option \<Rightarrow> db \<Rightarrow> ('tok \<times> claims) reply" where
  "login sign compare JWT_SECRET uname pw s =
     (case uname of
        None \<Rightarrow> Error 500 ''Internal server error''
      | Some u \<Rightarrow>
          (case limit 1 (where_eq username u (usersCol s)) of
             [] \<Rightarrow> Error 401 ''Invalid credentials''
           | (docId, userData) # _ \<Rightarrow>
               if \<not> truthy (password userData)
               then Error 401 ''This account uses social login. Please sign in with Google.''
               else (case (pw, password userData) of
                       (Some p, Some h) \<Rightarrow>
                         if \<not> compare p h then Error 401 ''Invalid credentials''
                         else (let payload = \<lparr>claim_id = docId, claim_username = username userData,
                                               claim_role = role_or_user (role userData)\<rparr>
                               in Ok 200 (sign payload JWT_SECRET expiresIn, payload))
                     | _ \<Rightarrow> Error 500 ''Internal server error'')))"

section \<open>External-identity login\<close>

text \<open>The profile the identity provider returns: \<^verbatim>\<open>sub\<close>, \<^verbatim>\<open>name\<close>, \<^verbatim>\<open>email\<close>,
  \<^verbatim>\<open>picture\<close>.\<close>

record profile =
  p_sub :: string
  p_name :: "string option"
  p_email :: "string option"
  p_picture :: "string option"

text \<open>
  \<^verbatim>\<open>name || email.split('@')[0]\<close>: with no truthy name the email is dereferenced, which
  throws when there is no email (\<open>None\<close>).
\<close>

definition new_username :: "profile \<Rightarrow> string option" where
  "new_username p =
     (if truthy (p_name p) then p_name p
      else (case p_email p of
              None \<Rightarrow> None
            | Some e \<Rightarrow> (case split_on CHR ''@'' e of w # _ \<Rightarrow> Some w | [] \<Rightarrow> None)))"

text \<open>\<^verbatim>\<open>v || null\<close>.\<close>

definition or_null :: "string option \<Rightarrow> string option" where
  "or_null v = (if truthy v then v else None)"

text \<open>
  The "find or create user" part of \<^verbatim>\<open>GET /auth/google/callback\<close>. The result is the
  document the handler goes on with (\<open>None\<close> when an exception was thrown) and the
  store. After linking, the handler goes on with the snapshot it read before the update.
\<close>

definition resolve_account ::
  "profile \<Rightarrow> string \<Rightarrow> nat \<Rightarrow> timestamp \<Rightarrow> db \<Rightarrow> (string \<times> user) option \<times> db" where
  "resolve_account p newId pos now s =
     (case limit 1 (where_eq google_id (Some (p_sub p)) (usersCol s)) of
        userDoc # _ \<Rightarrow> (Some userDoc, s)
      | [] \<Rightarrow>
          (case (if truthy (p_email p) then limit 1 (where_eq email (p_email p) (usersCol s)) else []) of
             (docId, userData) # _ \<Rightarrow>
               (Some (docId, userData),
                s\<lparr>usersCol := doc_update (usersCol s) docId (\<lambda>u. u\<lparr>google_id := Some (p_sub p)\<rparr>)\<rparr>)
           | [] \<Rightarrow>
               (case new_username p of
                  None \<Rightarrow> (None, s)
                | Some uname \<Rightarrow>
                    (let newUser = \<lparr>username = uname, password = None, role = Some ''user'',
                                     email = or_null (p_email p), google_id = Some (p_sub p),
                                     avatar = or_null (p_picture p), user_created_at = Some now\<rparr>
                     in (Some (newId, newUser),
                         s\<lparr>usersCol := col_add (usersCol s) pos newId newUser\<rparr>)))))"

text \<open>
  The whole handler. \<open>exchange code\<close> stands for the two requests to the identity
  provider: the profile, or \<open>None\<close> when one of them fails.
\<close>

definition google_callback ::
  "(claims \<Rightarrow> string \<Rightarrow> nat \<Rightarrow> 'tok) \<Rightarrow> (string \<Rightarrow> profile option) \<Rightarrow> string \<Rightarrow> string option \<Rightarrow>
   string \<Rightarrow> nat \<Rightarrow> timestamp \<Rightarrow> db \<Rightarrow> ('tok \<times> claims) reply \<times> db" where
  "google_callback sign exchange JWT_SECRET code newId pos now s =
     (case code of
        None \<Rightarrow> (Error 400 ''No code provided'', s)
      | Some c \<Rightarrow>
          if c = [] then (Error 400 ''No code provided'', s)
          else (case exchange c of
                  None \<Rightarrow> (Error 500 ''Authentication failed'', s)
                | Some p \<Rightarrow>
                    (case resolve_account p newId pos now s of
                       (None, s') \<Rightarrow> (Error 500 ''Authentication failed'', s')
                     | (Some (docId, userData), s') \<Rightarrow>
                         (let payload = \<lparr>claim_id = docId, claim_username = username userData,
                                          claim_role = role_or_user (role userData)\<rparr>
                          in (Ok 200 (sign payload JWT_SECRET expiresIn, payload), s')))))"

section \<open>Blog routes: list and create\<close>

text \<open>
  \<^verbatim>\<open>Array.prototype.sort\<close> with a comparator: the sort is stable, and \<open>cmp a b \<le> 0\<close>
  keeps \<open>a\<close> before \<open>b\<close>.
\<close>

fun insert_cmp :: "('a \<Rightarrow> 'a \<Rightarrow> int) \<Rightarrow> 'a \<Rightarrow> 'a list \<Rightarrow> 'a list" where
  "insert_cmp cmp x [] = [x]"
| "insert_cmp cmp x (y # ys) = (if cmp x y \<le> 0 then x # y # ys else y # insert_cmp cmp x ys)"

definition sort_cmp :: "('a \<Rightarrow> 'a \<Rightarrow> int) \<Rightarrow> 'a list \<Rightarrow> 'a list" where
  "sort_cmp cmp xs = foldr (insert_cmp cmp) xs []"

text \<open>
  \<^verbatim>\<open>Timestamp.toDate()\<close> as the milliseconds of the \<^verbatim>\<open>Date\<close>: a \<^verbatim>\<open>Date\<close> holds whole
  milliseconds, the nanoseconds are rounded.
\<close>

definition toDate :: "timestamp \<Rightarrow> int" where
  "toDate t = seconds t * 1000 + (int (nanoseconds t) + 500000) div 1000000"

text \<open>\<^verbatim>\<open>a.created_at?.toDate?.() || new Date(0)\<close>.\<close>

definition dateOf :: "string \<times> blog \<Rightarrow> int" where
  "dateOf a = (case created_at (snd a) of Some t \<Rightarrow> toDate t | None \<Rightarrow> 0)"

text \<open>\<^verbatim>\<open>GET /api/blogs\<close> after \<^verbatim>\<open>tryAuthenticate\<close>; an entry \<open>(i, b)\<close> of the result is
  \<^verbatim>\<open>{ id: doc.id, ...doc.data() }\<close>.\<close>

definition get_blogs :: "claims option \<Rightarrow> db \<Rightarrow> (string \<times> blog) list reply" where
  "get_blogs user s =
     (case user of
        Some u \<Rightarrow>
          Ok 200 (sort_cmp (\<lambda>a b. dateOf b - dateOf a)
                    (where_eq user_id (Some (claim_id u)) (blogsCol s)))
      | None \<Rightarrow>
          Ok 200 (limit 20 (order_by_desc created_at (where_eq user_id None (blogsCol s)))))"

text \<open>\<^verbatim>\<open>POST /api/blogs\<close> after \<^verbatim>\<open>tryAuthenticate\<close>. The store refuses a document with
  an \<^verbatim>\<open>undefined\<close> field; the \<^verbatim>\<open>details\<close> of the 500 answer are left out.\<close>

definition post_blog ::
  "claims option \<Rightarrow> blog_body \<Rightarrow> string \<Rightarrow> nat \<Rightarrow> timestamp \<Rightarrow> db \<Rightarrow> (string \<times> blog) reply \<times> db" where
  "post_blog user body newId pos now s =
     (case (b_title body, b_content body, b_excerpt body, b_tone body, b_language body) of
        (Some t, Some c, Some e, Some tn, Some l) \<Rightarrow>
          (let blogData = \<lparr>user_id = map_option claim_id user, title = t, content = c, excerpt = e,
                            tone = tn, language = l, created_at = Some now, updated_at = None\<rparr>
           in (Ok 201 (newId, blogData), s\<lparr>blogsCol := col_add (blogsCol s) pos newId blogData\<rparr>))
      | _ \<Rightarrow> (Error 500 ''Internal server error'', s))"

text \<open>\<^verbatim>\<open>GET /api/admin/stats\<close> after \<^verbatim>\<open>authenticateToken\<close>.\<close>

definition admin_stats :: "claims \<Rightarrow> db \<Rightarrow> nat reply \<times> db" where
  "admin_stats user s =
     (if claim_role user \<noteq> ''admin'' then (Error 403 ''Admin access required'', s)
      else (Ok 200 (length (usersCol s)), s))"

section \<open>The token service\<close>

text \<open>
  Modelled from the spec: the token service (section 4.1) is the \<^verbatim>\<open>jsonwebtoken\<close>
  library, which is not part of the repository. A token is a signed, time-limited
  credential: it carries the claims, the time of issuance, the expiry and the secret it
  was signed with; anything else a client may send is \<open>Garbage\<close>. Times are seconds.
  \<open>jwt_verify\<close> fails with \<open>Invalid\<close> when the payload is malformed or the signature does
  not match, and with \<open>Expired\<close> when the expiry has passed.
\<close>

datatype token =
    Token (tok_claims: claims) (tok_iat: nat) (tok_exp: nat) (tok_key: string)
  | Garbage string

definition jwt_sign :: "nat \<Rightarrow> claims \<Rightarrow> string \<Rightarrow> nat \<Rightarrow> token" where
  "jwt_sign now payload secret span = Token payload now (now + span) secret"

definition jwt_verify :: "nat \<Rightarrow> token \<Rightarrow> string \<Rightarrow> jwt_error + claims" where
  "jwt_verify now tok secret =
     (case tok of
        Garbage _ \<Rightarrow> Inl Invalid
      | Token payload iat exp key \<Rightarrow>
          if key \<noteq> secret then Inl Invalid
          else if exp \<le> now then Inl Expired
          else Inr payload)"

section \<open>The routes\<close>

text \<open>The routes as \<^verbatim>\<open>startServer\<close> binds them: update, delete and the admin statistics
  behind \<^verbatim>\<open>authenticateToken\<close>, list and create behind \<^verbatim>\<open>tryAuthenticate\<close>.\<close>

definition put_route ::
  "(string \<Rightarrow> string \<Rightarrow> jwt_error + claims) \<Rightarrow> string \<Rightarrow> string option \<Rightarrow> string \<Rightarrow> blog_body \<Rightarrow>
   timestamp \<Rightarrow> db \<Rightarrow> string reply \<times> db" where
  "put_route verify JWT_SECRET authHeader blogId body now =
     strict_route verify JWT_SECRET authHeader (\<lambda>user. put_blog user blogId body now)"

definition delete_route ::
  "(string \<Rightarrow> string \<Rightarrow> jwt_error + claims) \<Rightarrow> string \<Rightarrow> string option \<Rightarrow> string \<Rightarrow>
   db \<Rightarrow> string reply \<times> db" where
  "delete_route verify JWT_SECRET authHeader blogId =
     strict_route verify JWT_SECRET authHeader (\<lambda>user. delete_blog user blogId)"

definition stats_route ::
  "(string \<Rightarrow> string \<Rightarrow> jwt_error + claims) \<Rightarrow> string \<Rightarrow> string option \<Rightarrow> db \<Rightarrow> nat reply \<times> db" where
  "stats_route verify JWT_SECRET authHeader = strict_route verify JWT_SECRET authHeader admin_stats"

definition list_route ::
  "(string \<Rightarrow> string \<Rightarrow> jwt_error + claims) \<Rightarrow> string \<Rightarrow> string option \<Rightarrow>
   db \<Rightarrow> (string \<times> blog) list reply \<times> db" where
  "list_route verify JWT_SECRET authHeader =
     best_effort_route verify JWT_SECRET authHeader (\<lambda>user s. (get_blogs user s, s))"

definition create_route ::
  "(string \<Rightarrow> string \<Rightarrow> jwt_error + claims) \<Rightarrow> string \<Rightarrow> string option \<Rightarrow> blog_body \<Rightarrow> string \<Rightarrow>
   nat \<Rightarrow> timestamp \<Rightarrow> db \<Rightarrow> (string \<times> blog) reply \<times> db" where
  "create_route verify JWT_SECRET authHeader body newId pos now =
     best_effort_route verify JWT_SECRET authHeader (\<lambda>user. post_blog user body newId pos now)"

section \<open>The claims' own notions\<close>

text \<open>
  "Case-insensitively equal", in the spec's words: two strings of the same length
  whose characters are equal or the two cases of one of the 26 letters.
\<close>

definition letter_pairs :: "(char \<times> char) list" where
  "letter_pairs = zip ''ABCDEFGHIJKLMNOPQRSTUVWXYZ'' ''abcdefghijklmnopqrstuvwxyz''"

definition same_letter :: "char \<Rightarrow> char \<Rightarrow> bool" where
  "same_letter c d = (c = d \<or> (c, d) \<in> set letter_pairs \<or> (d, c) \<in> set letter_pairs)"

definition eq_ignore_case :: "string \<Rightarrow> string \<Rightarrow> bool" where
  "eq_ignore_case a b = list_all2 same_letter a b"

text \<open>
  "Sorted by creation timestamp descending, a missing timestamp treated as epoch
  zero", in the spec's words: the timestamps themselves are compared, as the store
  compares them.
\<close>

definition created_key :: "string \<times> blog \<Rightarrow> int \<times> nat" where
  "created_key x = (case created_at (snd x) of Some t \<Rightarrow> ts_key t | None \<Rightarrow> (0, 0))"

definition newest_first :: "(string \<times> blog) list \<Rightarrow> bool" where
  "newest_first r = sorted_wrt (\<lambda>a b. created_key b \<le> created_key a) r"

section \<open>Example data\<close>

text \<open>Concrete users, posts and stores on which the theorems below are instantiated.\<close>

definition alice :: claims where
  "alice = \<lparr>claim_id = ''u1'', claim_username = ''alice'', claim_role = ''user''\<rparr>"

definition bob :: claims where
  "bob = \<lparr>claim_id = ''u2'', claim_username = ''bob'', claim_role = ''user''\<rparr>"

definition alice_post :: blog where
  "alice_post = \<lparr>user_id = Some ''u1'', title = ''T'', content = ''C'', excerpt = ''E'',
                 tone = ''formal'', language = ''en'',
                 created_at = Some (Timestamp 100 0), updated_at = None\<rparr>"

definition body1 :: blog_body where
  "body1 = \<lparr>b_title = Some ''T2'', b_content = Some ''C2'', b_excerpt = Some ''E2'',
            b_tone = None, b_language = None\<rparr>"

definition db0 :: db where
  "db0 = \<lparr>usersCol = [], blogsCol = []\<rparr>"

definition db1 :: db where
  "db1 = \<lparr>usersCol = [], blogsCol = [(''b1'', alice_post)]\<rparr>"

text \<open>A verifier that accepts one token under one secret.\<close>

definition toy_verify :: "string \<Rightarrow> string \<Rightarrow> jwt_error + claims" where
  "toy_verify token secret =
     (if token = ''good'' \<and> secret = ''k''
      then Inr \<lparr>claim_id = ''u1'', claim_username = ''alice'', claim_role = ''user''\<rparr>
      else Inl Invalid)"

text \<open>A password library that keeps the password readable, and a decoder that verifies
  a token at a given time.\<close>

definition toy_hash :: "string \<Rightarrow> nat \<Rightarrow> string" where
  "toy_hash p cost = ''$2a$'' @ p"

definition toy_compare :: "string \<Rightarrow> string \<Rightarrow> bool" where
  "toy_compare p h = (h = ''$2a$'' @ p)"

definition decode_at :: "nat \<Rightarrow> string \<Rightarrow> token \<Rightarrow> claims option" where
  "decode_at t secret tok = (case jwt_verify t tok secret of Inl err \<Rightarrow> None | Inr c \<Rightarrow> Some c)"

definition post_at :: "string option \<Rightarrow> timestamp option \<Rightarrow> blog" where
  "post_at owner t = \<lparr>user_id = owner, title = ''T'', content = ''C'', excerpt = ''E'',
     tone = ''formal'', language = ''en'', created_at = t, updated_at = None\<rparr>"

text \<open>A store with posts of two users and of anonymous callers; \<^verbatim>\<open>b3\<close> has no creation
  timestamp, \<^verbatim>\<open>b1\<close> and \<^verbatim>\<open>b7\<close> were created within the same millisecond.\<close>

definition db2 :: db where
  "db2 = \<lparr>usersCol = [],
           blogsCol = [(''b1'', post_at (Some ''u1'') (Some (Timestamp 100 0))),
                       (''b2'', post_at None (Some (Timestamp 150 0))),
                       (''b3'', post_at (Some ''u1'') None),
                       (''b4'', post_at (Some ''u1'') (Some (Timestamp 300 0))),
                       (''b5'', post_at (Some ''u2'') (Some (Timestamp 400 0))),
                       (''b6'', post_at None (Some (Timestamp 150 7000))),
                       (''b7'', post_at (Some ''u1'') (Some (Timestamp 100 200000))),
                       (''b8'', post_at (Some ''u1'') (Some (Timestamp 200 0)))]\<rparr>"

definition db3 :: db where
  "db3 = \<lparr>usersCol = [(''u1'', \<lparr>username = ''alice'', password = Some (toy_hash ''pw1'' 10),
                                 role = Some ''user'', email = None, google_id = None,
                                 avatar = None, user_created_at = Some (Timestamp 10 0)\<rparr>)],
           blogsCol = []\<rparr>"

text \<open>A profile with neither a name nor an email.\<close>

definition bare_profile :: profile where
  "bare_profile = \<lparr>p_sub = ''g-1'', p_name = None, p_email = None, p_picture = Some ''pic''\<rparr>"

section \<open>Update and delete: who may mutate a post\<close>

lemma doc_get_update:
  "doc_get (doc_update col i f) j = (if j = i then map_option f (doc_get col j) else doc_get col j)"
  by (induction col) (auto simp: doc_get_def doc_update_def)

lemma doc_get_delete:
  "doc_get (doc_delete col i) j = (if j = i then None else doc_get col j)"
  by (induction col) (auto simp: doc_get_def doc_delete_def)

text \<open>
  C1. For an update or a delete by an authenticated caller \<open>user\<close>: when no post has the
  id, both answer 404 (\<^verbatim>\<open>NotFound\<close>) and leave the store as it is; when the post exists,
  the caller is not its owner and the caller's role is not \<^verbatim>\<open>admin\<close>, both answer 403
  (\<^verbatim>\<open>Forbidden\<close>) whatever the body is, and leave the store as it is; when the caller is
  the owner or an admin, the delete removes the post and an update whose body carries
  the three fields writes them; and the store changes only for an owner or an admin.
\<close>

theorem update_delete_authorisation:
  "(doc_get (blogsCol s) blogId = None \<longrightarrow>
      put_blog user blogId body now s = (Error 404 ''Blog not found'', s) \<and>
      delete_blog user blogId s = (Error 404 ''Blog not found'', s)) \<and>
   (\<forall>blogData. doc_get (blogsCol s) blogId = Some blogData \<and>
        user_id blogData \<noteq> Some (claim_id user) \<and> claim_role user \<noteq> ''admin'' \<longrightarrow>
      put_blog user blogId body now s = (Error 403 ''Unauthorized to edit this blog'', s) \<and>
      delete_blog user blogId s = (Error 403 ''Unauthorized to delete this blog'', s)) \<and>
   (\<forall>blogData. doc_get (blogsCol s) blogId = Some blogData \<and>
        (user_id blogData = Some (claim_id user) \<or> claim_role user = ''admin'') \<longrightarrow>
      delete_blog user blogId s =
        (Ok 200 ''Blog deleted successfully'', s\<lparr>blogsCol := doc_delete (blogsCol s) blogId\<rparr>) \<and>
      (\<forall>t c e. b_title body = Some t \<and> b_content body = Some c \<and> b_excerpt body = Some e \<longrightarrow>
         put_blog user blogId body now s =
           (Ok 200 ''Blog updated successfully'',
            s\<lparr>blogsCol := doc_update (blogsCol s) blogId
                 (\<lambda>b. b\<lparr>title := t, content := c, excerpt := e, updated_at := Some now\<rparr>)\<rparr>))) \<and>
   ((snd (put_blog user blogId body now s) \<noteq> s \<or> snd (delete_blog user blogId s) \<noteq> s) \<longrightarrow>
      (\<exists>blogData. doc_get (blogsCol s) blogId = Some blogData \<and>
         (user_id blogData = Some (claim_id user) \<or> claim_role user = ''admin'')))"
  by (auto simp: put_blog_def delete_blog_def split: option.splits)

theorem update_delete_authorisation_witness:
  "doc_get (blogsCol db1) ''zz'' = None \<and>
   put_blog bob ''zz'' body1 (Timestamp 200 0) db1 = (Error 404 ''Blog not found'', db1) \<and>
   doc_get (blogsCol db1) ''b1'' = Some alice_post \<and>
   user_id alice_post \<noteq> Some (claim_id bob) \<and> claim_role bob \<noteq> ''admin'' \<and>
   put_blog bob ''b1'' body1 (Timestamp 200 0) db1 =
     (Error 403 ''Unauthorized to edit this blog'', db1) \<and>
   delete_blog bob ''b1'' db1 = (Error 403 ''Unauthorized to delete this blog'', db1) \<and>
   user_id alice_post = Some (claim_id alice) \<and>
   delete_blog alice ''b1'' db1 = (Ok 200 ''Blog deleted successfully'', db1\<lparr>blogsCol := []\<rparr>) \<and>
   snd (delete_blog alice ''b1'' db1) \<noteq> db1"
  using update_delete_authorisation [of db1 "''zz''" bob body1 "Timestamp 200 0"]
        update_delete_authorisation [of db1 "''b1''" bob body1 "Timestamp 200 0"]
        update_delete_authorisation [of db1 "''b1''" alice body1 "Timestamp 200 0"]
  by (simp add: db1_def alice_post_def bob_def alice_def doc_get_def doc_delete_def)

section \<open>The two authentication modes\<close>

lemma authenticateToken_no_token:
  "\<not> truthy (header_token authHeader) \<Longrightarrow>
   authenticateToken verify secret authHeader = Inl (Error 401 ''Unauthorized'')"
  by (auto simp: authenticateToken_def truthy_def split: option.splits)

lemma authenticateToken_bad_token:
  "header_token authHeader = Some token \<Longrightarrow> token \<noteq> [] \<Longrightarrow> verify token secret = Inl err \<Longrightarrow>
   authenticateToken verify secret authHeader = Inl (Error 403 ''Forbidden'')"
  by (simp add: authenticateToken_def)

lemma tryAuthenticate_no_token:
  "\<not> truthy (header_token authHeader) \<Longrightarrow> tryAuthenticate verify secret authHeader = None"
  by (auto simp: tryAuthenticate_def truthy_def split: option.splits)

lemma tryAuthenticate_bad_token:
  "header_token authHeader = Some token \<Longrightarrow> token \<noteq> [] \<Longrightarrow> verify token secret = Inl err \<Longrightarrow>
   tryAuthenticate verify secret authHeader = None"
  by (simp add: tryAuthenticate_def)

text \<open>
  C8. Best-effort mode, for whatever the token library answers: a request without a
  bearer token goes on with \<^verbatim>\<open>req.user = null\<close>, and so does a request whose token the
  library refuses (invalid or expired); the list and the create route then answer what
  their handlers answer to an anonymous caller.
\<close>

theorem best_effort_mode_anonymous:
  "(\<not> truthy (header_token authHeader) \<longrightarrow>
      tryAuthenticate verify secret authHeader = None \<and>
      list_route verify secret authHeader s = (get_blogs None s, s) \<and>
      create_route verify secret authHeader body newId pos now s =
        post_blog None body newId pos now s) \<and>
   (\<forall>token err. header_token authHeader = Some token \<and> token \<noteq> [] \<and>
        verify token secret = Inl err \<longrightarrow>
      tryAuthenticate verify secret authHeader = None \<and>
      list_route verify secret authHeader s = (get_blogs None s, s) \<and>
      create_route verify secret authHeader body newId pos now s =
        post_blog None body newId pos now s)"
  by (auto simp: best_effort_route_def list_route_def create_route_def
        tryAuthenticate_no_token tryAuthenticate_bad_token)

theorem best_effort_mode_anonymous_witness:
  "\<not> truthy (header_token None) \<and>
   list_route toy_verify ''k'' None db0 = (Ok 200 [], db0) \<and>
   header_token (Some ''Bearer bad'') = Some ''bad'' \<and> ''bad'' \<noteq> [] \<and>
   toy_verify ''bad'' ''k'' = Inl Invalid \<and>
   tryAuthenticate toy_verify ''k'' (Some ''Bearer bad'') = None \<and>
   list_route toy_verify ''k'' (Some ''Bearer bad'') db0 = (Ok 200 [], db0)"
  using best_effort_mode_anonymous [of None toy_verify "''k''" db0]
        best_effort_mode_anonymous [of "Some ''Bearer bad''" toy_verify "''k''" db0]
  apply (simp add: header_token_def truthy_def toy_verify_def)
  apply (simp add: get_blogs_def db0_def where_eq_def order_by_desc_def limit_def)
  done

text \<open>
  C10. Strict mode, for whatever the token library answers: a request without a bearer
  token is answered 401 (\<^verbatim>\<open>Unauthorized\<close>), a request whose token the library refuses is
  answered 403 (\<^verbatim>\<open>Forbidden\<close>); in both cases the answer does not depend on the handler
  and the store is as it was. This holds for any handler behind \<^verbatim>\<open>authenticateToken\<close>,
  and so for the update, delete and admin statistics routes.
\<close>

theorem strict_mode_rejections:
  "(\<not> truthy (header_token authHeader) \<longrightarrow>
      strict_route verify secret authHeader handler s = (Error 401 ''Unauthorized'', s) \<and>
      put_route verify secret authHeader blogId body now s = (Error 401 ''Unauthorized'', s) \<and>
      delete_route verify secret authHeader blogId s = (Error 401 ''Unauthorized'', s) \<and>
      stats_route verify secret authHeader s = (Error 401 ''Unauthorized'', s)) \<and>
   (\<forall>token err. header_token authHeader = Some token \<and> token \<noteq> [] \<and>
        verify token secret = Inl err \<longrightarrow>
      strict_route verify secret authHeader handler s = (Error 403 ''Forbidden'', s) \<and>
      put_route verify secret authHeader blogId body now s = (Error 403 ''Forbidden'', s) \<and>
      delete_route verify secret authHeader blogId s = (Error 403 ''Forbidden'', s) \<and>
      stats_route verify secret authHeader s = (Error 403 ''Forbidden'', s))"
  by (auto simp: strict_route_def put_route_def delete_route_def stats_route_def
        authenticateToken_no_token authenticateToken_bad_token)

theorem strict_mode_rejections_witness:
  "\<not> truthy (header_token None) \<and>
   delete_route toy_verify ''k'' None ''b1'' db1 = (Error 401 ''Unauthorized'', db1) \<and>
   header_token (Some ''Bearer bad'') = Some ''bad'' \<and> ''bad'' \<noteq> [] \<and>
   toy_verify ''bad'' ''k'' = Inl Invalid \<and>
   delete_route toy_verify ''k'' (Some ''Bearer bad'') ''b1'' db1 = (Error 403 ''Forbidden'', db1)"
  using strict_mode_rejections
          [of None toy_verify "''k''" "\<lambda>user. delete_blog user ''b1''" db1 "''b1''"]
        strict_mode_rejections
          [of "Some ''Bearer bad''" toy_verify "''k''" "\<lambda>user. delete_blog user ''b1''" db1 "''b1''"]
  by (simp add: header_token_def truthy_def toy_verify_def)

section \<open>What an update leaves alone\<close>

text \<open>
  C9. After a successful update the users are as they were, the posts are the same
  documents in the same order, every post other than the updated one is unchanged, and
  the updated post differs from what it was in its title, content, excerpt and update
  timestamp at most: its owner, tone, language and creation timestamp are unchanged.
  So under every id the store records the same owner as before.
\<close>

theorem update_frame:
  "put_blog user blogId body now s = (Ok n msg, s') \<Longrightarrow>
   usersCol s' = usersCol s \<and>
   list_all2 (\<lambda>(i, b) (i', b'). i' = i \<and> (i \<noteq> blogId \<longrightarrow> b' = b) \<and>
        user_id b' = user_id b \<and> tone b' = tone b \<and> language b' = language b \<and>
        created_at b' = created_at b \<and>
        b' = b\<lparr>title := title b', content := content b', excerpt := excerpt b',
               updated_at := updated_at b'\<rparr>)
     (blogsCol s) (blogsCol s') \<and>
   (\<forall>i. map_option user_id (doc_get (blogsCol s') i) = map_option user_id (doc_get (blogsCol s) i))"
  by (auto simp: put_blog_def doc_update_def doc_get_update [unfolded doc_update_def]
        list_all2_map2 option.map_comp comp_def
        split: option.splits if_splits intro!: list_all2_refl)

theorem update_frame_witness:
  "put_blog alice ''b1'' body1 (Timestamp 200 0) db1 =
     (Ok 200 ''Blog updated successfully'',
      \<lparr>usersCol = [],
       blogsCol = [(''b1'', \<lparr>user_id = Some ''u1'', title = ''T2'', content = ''C2'',
                             excerpt = ''E2'', tone = ''formal'', language = ''en'',
                             created_at = Some (Timestamp 100 0),
                             updated_at = Some (Timestamp 200 0)\<rparr>)]\<rparr>) \<and>
   map_option user_id
     (doc_get (blogsCol (snd (put_blog alice ''b1'' body1 (Timestamp 200 0) db1))) ''b1'') =
   Some (Some ''u1'')"
proof -
  have h: "put_blog alice ''b1'' body1 (Timestamp 200 0) db1 =
     (Ok 200 ''Blog updated successfully'',
      \<lparr>usersCol = [],
       blogsCol = [(''b1'', \<lparr>user_id = Some ''u1'', title = ''T2'', content = ''C2'',
                             excerpt = ''E2'', tone = ''formal'', language = ''en'',
                             created_at = Some (Timestamp 100 0),
                             updated_at = Some (Timestamp 200 0)\<rparr>)]\<rparr>)"
    by (simp add: put_blog_def db1_def alice_def alice_post_def body1_def doc_get_def
          doc_update_def)
  show ?thesis
    using h update_frame [OF h] by (simp add: doc_get_def)
qed

section \<open>Registration\<close>

lemma char_of_admin:
  "char_of (97::nat) = CHR ''a''" "char_of (100::nat) = CHR ''d''"
  "char_of (109::nat) = CHR ''m''" "char_of (105::nat) = CHR ''i''"
  "char_of (110::nat) = CHR ''n''"
  by code_simp+

lemma same_letter_admin:
  "same_letter c CHR ''a'' \<Longrightarrow> lower_char c = CHR ''a''"
  "same_letter c CHR ''d'' \<Longrightarrow> lower_char c = CHR ''d''"
  "same_letter c CHR ''m'' \<Longrightarrow> lower_char c = CHR ''m''"
  "same_letter c CHR ''i'' \<Longrightarrow> lower_char c = CHR ''i''"
  "same_letter c CHR ''n'' \<Longrightarrow> lower_char c = CHR ''n''"
  by (auto simp: same_letter_def letter_pairs_def lower_char_def char_of_admin)

lemma eq_ignore_case_admin:
  "eq_ignore_case u ''admin'' \<Longrightarrow> u \<noteq> [] \<and> toLowerCase u = ''admin''"
  by (auto simp: eq_ignore_case_def toLowerCase_def list_all2_Cons2 same_letter_admin)

text \<open>
  C5. A registration whose username equals \<^verbatim>\<open>admin\<close> up to the case of its letters is
  answered 400 with the reserved-username message, whatever the password and the store
  are, and the store is as it was: no user is created.
\<close>

theorem register_reserved_username:
  "eq_ignore_case u ''admin'' \<Longrightarrow>
   register hash (Some u) pw newId pos now s =
     (Error 400 ''Cannot register with this username'', s)"
  using eq_ignore_case_admin [of u] by (simp add: register_def truthy_def)

theorem register_reserved_username_witness:
  "eq_ignore_case ''AdMiN'' ''admin'' \<and>
   register toy_hash (Some ''AdMiN'') (Some ''pw'') ''u9'' 0 (Timestamp 5 0) db0 =
     (Error 400 ''Cannot register with this username'', db0)"
proof -
  have h: "eq_ignore_case ''AdMiN'' ''admin''"
    by (simp add: eq_ignore_case_def same_letter_def letter_pairs_def)
  show ?thesis
    using h register_reserved_username [OF h] by simp
qed

lemma limit_Suc_empty: "limit (Suc n) xs = [] \<longleftrightarrow> xs = []"
  by (cases xs) (simp_all add: limit_def)

lemma where_eq_col_add:
  "where_eq field v col = [] \<Longrightarrow>
   where_eq field v (col_add col pos i d) = (if field d = v then [(i, d)] else [])"
proof -
  assume e: "where_eq field v col = []"
  have "\<forall>x \<in> set col. \<not> (case x of (j, d) \<Rightarrow> field d = v)"
    using e by (simp add: where_eq_def filter_empty_conv)
  then have "filter (\<lambda>(j, d). field d = v) (take pos col) = []"
    and "filter (\<lambda>(j, d). field d = v) (drop pos col) = []"
    using set_take_subset [of pos col] set_drop_subset [of pos col]
    by (auto simp: filter_empty_conv)
  then show ?thesis
    by (simp add: where_eq_def col_add_def)
qed

text \<open>
  C6. Let a registration succeed (status 201, returning \<open>view\<close>: id, username, role),
  with a password library whose \<^verbatim>\<open>compare\<close> accepts a password against its own hash and
  whose hashes are not empty, and a token library whose tokens decode to the payload
  they were signed with. Then a login with the same username and password in the store
  the registration left answers 200 with a token and the same \<open>view\<close>, and the token
  decodes to that \<open>view\<close>.
\<close>

theorem register_then_login:
  assumes reg: "register hash uname pw newId pos now s = (Ok 201 view, s')"
    and bcrypt: "\<And>p. hash p 10 \<noteq> [] \<and> compare p (hash p 10)"
    and jwt: "\<And>c. decode (sign c secret expiresIn) = Some c"
  shows "\<exists>tok. login sign compare secret uname pw s' = Ok 200 (tok, view) \<and>
               decode tok = Some view"
proof -
  from reg obtain u p where u: "uname = Some u" and p: "pw = Some p"
    by (auto simp: register_def split: option.splits if_splits)
  from reg u p have free: "where_eq username u (usersCol s) = []"
    by (auto simp: register_def limit_Suc_empty split: if_splits)
  let ?d = "\<lparr>username = u, password = Some (hash p 10), role = Some ''user'', email = None,
             google_id = None, avatar = None, user_created_at = Some now\<rparr>"
  from reg u p have view: "view = \<lparr>claim_id = newId, claim_username = u, claim_role = ''user''\<rparr>"
    and s': "usersCol s' = col_add (usersCol s) pos newId ?d"
    by (auto simp: register_def split: if_splits)
  have found: "where_eq username u (usersCol s') = [(newId, ?d)]"
    using where_eq_col_add [OF free, of pos newId ?d] by (simp add: s')
  show ?thesis
    using bcrypt [of p] jwt
    by (simp add: login_def u p found limit_def truthy_def role_or_user_def view Let_def)
qed

theorem register_then_login_witness:
  "register toy_hash (Some ''carol'') (Some ''pw1'') ''u7'' 0 (Timestamp 50 0) db3 =
     (Ok 201 \<lparr>claim_id = ''u7'', claim_username = ''carol'', claim_role = ''user''\<rparr>,
      snd (register toy_hash (Some ''carol'') (Some ''pw1'') ''u7'' 0 (Timestamp 50 0) db3)) \<and>
   (\<exists>tok. login (jwt_sign 1000) toy_compare ''k'' (Some ''carol'') (Some ''pw1'')
             (snd (register toy_hash (Some ''carol'') (Some ''pw1'') ''u7'' 0 (Timestamp 50 0) db3)) =
           Ok 200 (tok, \<lparr>claim_id = ''u7'', claim_username = ''carol'', claim_role = ''user''\<rparr>) \<and>
          decode_at 2000 ''k'' tok =
            Some \<lparr>claim_id = ''u7'', claim_username = ''carol'', claim_role = ''user''\<rparr>)"
proof -
  have h: "register toy_hash (Some ''carol'') (Some ''pw1'') ''u7'' 0 (Timestamp 50 0) db3 =
     (Ok 201 \<lparr>claim_id = ''u7'', claim_username = ''carol'', claim_role = ''user''\<rparr>,
      snd (register toy_hash (Some ''carol'') (Some ''pw1'') ''u7'' 0 (Timestamp 50 0) db3))"
    by (simp add: register_def db3_def truthy_def toLowerCase_def lower_char_def where_eq_def
          limit_def)
  have b: "\<And>p. toy_hash p 10 \<noteq> [] \<and> toy_compare p (toy_hash p 10)"
    by (simp add: toy_hash_def toy_compare_def)
  have j: "\<And>c. decode_at 2000 ''k'' (jwt_sign 1000 c ''k'' expiresIn) = Some c"
    by (simp add: decode_at_def jwt_sign_def jwt_verify_def expiresIn_def)
  show ?thesis
    using h register_then_login
        [where sign = "jwt_sign 1000" and secret = "''k''" and decode = "decode_at 2000 ''k''"
           and compare = toy_compare, OF h b j]
    by simp
qed

section \<open>Listing\<close>

lemma order_by_desc_set:
  "set (order_by_desc field col) = {x \<in> set col. field (snd x) \<noteq> None}"
  by (simp add: order_by_desc_def)

lemma order_by_desc_sorted:
  "sorted_wrt (\<lambda>a b. \<exists>ta tb. field (snd a) = Some ta \<and> field (snd b) = Some tb \<and>
                      ts_key tb \<le> ts_key ta)
     (order_by_desc field col)"
proof -
  let ?key = "\<lambda>x. case field (snd x) of Some t \<Rightarrow> ts_key t | None \<Rightarrow> (0, 0)"
  let ?xs = "filter (\<lambda>x. field (snd x) \<noteq> None) col"
  have "sorted (map ?key (sort_key ?key ?xs))"
    by (rule sorted_sort_key)
  then have "sorted_wrt (\<lambda>a b. ?key a \<le> ?key b) (sort_key ?key ?xs)"
    by (simp add: sorted_map)
  then have "sorted_wrt (\<lambda>a b. ?key b \<le> ?key a) (rev (sort_key ?key ?xs))"
    by (simp add: sorted_wrt_rev)
  then show ?thesis
    unfolding order_by_desc_def
    by (rule sorted_wrt_mono_rel [rotated]) auto
qed

text \<open>
  C2. The list an anonymous caller gets holds only posts of the store whose owner is
  \<^verbatim>\<open>null\<close>, each with a creation timestamp; every post in it was created no earlier than
  the posts after it (the timestamps compared by seconds, then nanoseconds); and it
  holds at most 20 posts.
\<close>

theorem list_anonymous:
  "\<exists>r. get_blogs None s = Ok 200 r \<and>
       (\<forall>x \<in> set r. user_id (snd x) = None \<and> x \<in> set (blogsCol s)) \<and>
       sorted_wrt (\<lambda>a b. \<exists>ta tb. created_at (snd a) = Some ta \<and> created_at (snd b) = Some tb \<and>
                          ts_key tb \<le> ts_key ta) r \<and>
       newest_first r \<and>
       length r \<le> 20"
proof -
  let ?q = "order_by_desc created_at (where_eq user_id None (blogsCol s))"
  let ?P = "\<lambda>a b. \<exists>ta tb. created_at (snd a) = Some ta \<and> created_at (snd b) = Some tb \<and>
                     ts_key tb \<le> ts_key ta"
  have "\<forall>x \<in> set (limit 20 ?q). user_id (snd x) = None \<and> x \<in> set (blogsCol s)"
    using set_take_subset [of 20 ?q]
    by (auto simp: limit_def order_by_desc_set where_eq_def)
  moreover have sorted: "sorted_wrt ?P (limit 20 ?q)"
    unfolding limit_def by (rule sorted_wrt_take) (rule order_by_desc_sorted)
  moreover have "newest_first (limit 20 ?q)"
    unfolding newest_first_def
    by (rule sorted_wrt_mono_rel [OF _ sorted]) (auto simp: created_key_def)
  moreover have "length (limit 20 ?q) \<le> 20"
    by (simp add: limit_def)
  ultimately show ?thesis
    by (simp add: get_blogs_def)
qed

theorem list_anonymous_witness:
  "get_blogs None db2 =
     Ok 200 [(''b6'', post_at None (Some (Timestamp 150 7000))),
             (''b2'', post_at None (Some (Timestamp 150 0)))] \<and>
   user_id (post_at None (Some (Timestamp 150 7000))) = None \<and>
   (''b6'', post_at None (Some (Timestamp 150 7000))) \<in> set (blogsCol db2) \<and>
   ts_key (Timestamp 150 0) \<le> ts_key (Timestamp 150 7000)"
proof -
  have h: "get_blogs None db2 =
     Ok 200 [(''b6'', post_at None (Some (Timestamp 150 7000))),
             (''b2'', post_at None (Some (Timestamp 150 0)))]"
    by (simp add: get_blogs_def db2_def where_eq_def post_at_def order_by_desc_def limit_def
          ts_key_def)
  show ?thesis
    using list_anonymous [of db2] by (simp add: h ts_key_def)
qed

lemma insert_cmp_insort_key:
  "insert_cmp (\<lambda>a b. f b - f a) x ys = insort_key (\<lambda>a. - f a) x ys"
  for f :: "'a \<Rightarrow> int"
  by (induction ys) auto

lemma sort_cmp_sort_key:
  "sort_cmp (\<lambda>a b. f b - f a) xs = sort_key (\<lambda>a. - f a) xs"
  for f :: "'a \<Rightarrow> int"
  by (induction xs) (simp_all add: sort_cmp_def sort_key_def insert_cmp_insort_key)

lemma sort_cmp_mset: "mset (sort_cmp (\<lambda>a b. f b - f a) xs) = mset xs"
  for f :: "'a \<Rightarrow> int"
  by (simp add: sort_cmp_sort_key)

lemma sort_cmp_descending:
  "sorted_wrt (\<lambda>a b. f b \<le> f a) (sort_cmp (\<lambda>a b. f b - f a) xs)"
  for f :: "'a \<Rightarrow> int"
proof -
  have "sorted (map (\<lambda>a. - f a) (sort_key (\<lambda>a. - f a) xs))"
    by (rule sorted_sort_key)
  then show ?thesis
    by (simp add: sort_cmp_sort_key sorted_map)
qed

lemma sort_cmp_stable:
  "filter (\<lambda>x. f x = k) (sort_cmp (\<lambda>a b. f b - f a) xs) = filter (\<lambda>x. f x = k) xs"
  for f :: "'a \<Rightarrow> int"
proof -
  have "filter (\<lambda>x. - f x = - k) (sort_key (\<lambda>a. - f a) xs) = filter (\<lambda>x. - f x = - k) xs"
    by (rule sort_key_stable)
  then show ?thesis
    by (simp add: sort_cmp_sort_key)
qed

lemma get_blogs_alice_db2:
  "get_blogs (Some alice) db2 =
     Ok 200 [(''b4'', post_at (Some ''u1'') (Some (Timestamp 300 0))),
             (''b8'', post_at (Some ''u1'') (Some (Timestamp 200 0))),
             (''b1'', post_at (Some ''u1'') (Some (Timestamp 100 0))),
             (''b7'', post_at (Some ''u1'') (Some (Timestamp 100 200000))),
             (''b3'', post_at (Some ''u1'') None)]"
  by (simp add: get_blogs_def db2_def alice_def where_eq_def post_at_def sort_cmp_def
        dateOf_def toDate_def)

text \<open>
  What the authenticated branch does do: whatever the caller's role, the list holds
  exactly the posts of the store whose owner is the caller's id, in descending order of
  \<open>dateOf\<close> (the creation timestamp as a \<^verbatim>\<open>Date\<close> in whole milliseconds, epoch zero for a
  post without one), and posts of equal \<open>dateOf\<close> are in the order in which the store
  returned them.
\<close>

lemma get_blogs_authenticated_by_date:
  "\<exists>r. get_blogs (Some u) s = Ok 200 r \<and>
       mset r = mset (filter (\<lambda>x. user_id (snd x) = Some (claim_id u)) (blogsCol s)) \<and>
       sorted_wrt (\<lambda>a b. dateOf b \<le> dateOf a) r \<and>
       (\<forall>k. filter (\<lambda>x. dateOf x = k) r =
            filter (\<lambda>x. dateOf x = k)
              (filter (\<lambda>x. user_id (snd x) = Some (claim_id u)) (blogsCol s))) \<and>
       (\<forall>r'. get_blogs (Some (u\<lparr>claim_role := r'\<rparr>)) s = get_blogs (Some u) s)"
proof -
  have w: "where_eq user_id (Some (claim_id u)) (blogsCol s) =
        filter (\<lambda>x. user_id (snd x) = Some (claim_id u)) (blogsCol s)"
    by (simp add: where_eq_def case_prod_unfold)
  show ?thesis
    by (simp add: get_blogs_def w sort_cmp_mset sort_cmp_descending sort_cmp_stable)
qed

text \<open>
  C3 at a failing input. In \<open>db2\<close> the caller \<^verbatim>\<open>u1\<close> owns \<^verbatim>\<open>b1\<close>, created at 100 s, and
  \<^verbatim>\<open>b7\<close>, created 200 microseconds later, and the store returns \<^verbatim>\<open>b1\<close> first. The claim
  wants the list in descending order of the creation timestamps. The comparator
  compares \<^verbatim>\<open>toDate()\<close> values, which hold whole milliseconds: the two posts compare
  equal, the stable sort keeps \<^verbatim>\<open>b1\<close> before \<^verbatim>\<open>b7\<close>, and the list is not newest first.
  The store's own \<^verbatim>\<open>orderBy('created_at', 'desc')\<close>, which the anonymous branch uses,
  puts the same two posts newest first.
\<close>

theorem list_authenticated_same_millisecond:
  "get_blogs (Some alice) db2 =
     Ok 200 [(''b4'', post_at (Some ''u1'') (Some (Timestamp 300 0))),
             (''b8'', post_at (Some ''u1'') (Some (Timestamp 200 0))),
             (''b1'', post_at (Some ''u1'') (Some (Timestamp 100 0))),
             (''b7'', post_at (Some ''u1'') (Some (Timestamp 100 200000))),
             (''b3'', post_at (Some ''u1'') None)] \<and>
   \<not> newest_first
        [(''b4'', post_at (Some ''u1'') (Some (Timestamp 300 0))),
         (''b8'', post_at (Some ''u1'') (Some (Timestamp 200 0))),
         (''b1'', post_at (Some ''u1'') (Some (Timestamp 100 0))),
         (''b7'', post_at (Some ''u1'') (Some (Timestamp 100 200000))),
         (''b3'', post_at (Some ''u1'') None)] \<and>
   dateOf (''b1'', post_at (Some ''u1'') (Some (Timestamp 100 0))) =
     dateOf (''b7'', post_at (Some ''u1'') (Some (Timestamp 100 200000))) \<and>
   ts_key (Timestamp 100 0) < ts_key (Timestamp 100 200000) \<and>
   order_by_desc created_at
     [(''b1'', post_at (Some ''u1'') (Some (Timestamp 100 0))),
      (''b7'', post_at (Some ''u1'') (Some (Timestamp 100 200000)))] =
     [(''b7'', post_at (Some ''u1'') (Some (Timestamp 100 200000))),
      (''b1'', post_at (Some ''u1'') (Some (Timestamp 100 0)))]"
  by (simp add: get_blogs_alice_db2 newest_first_def created_key_def post_at_def ts_key_def
        dateOf_def toDate_def order_by_desc_def)

section \<open>Tokens\<close>

lemma login_token:
  "login sign compare secret uname pw s = Ok n (tok, view) \<Longrightarrow>
   tok = sign view secret expiresIn"
  by (auto simp: login_def Let_def split: option.splits list.splits if_splits prod.splits)

text \<open>
  C7. A token issued at \<open>now\<close> carries the payload it was issued for and the expiry
  \<open>now\<close> plus 24 hours, and so does the token of every successful login: its payload is
  the id, username and role the login returns. Such a token verifies to its payload
  before the expiry and fails with \<open>Expired\<close> from the expiry on; and every token signed
  with the service's secret fails with \<open>Expired\<close> once its expiry has passed.
\<close>

theorem token_issuance_and_expiry:
  "tok_claims (jwt_sign now payload secret expiresIn) = payload \<and>
   tok_exp (jwt_sign now payload secret expiresIn) = now + 24 * 60 * 60 \<and>
   (\<forall>n tok view. login (jwt_sign now) compare secret uname pw s = Ok n (tok, view) \<longrightarrow>
      tok_claims tok = view \<and> tok_exp tok = now + 24 * 60 * 60) \<and>
   (\<forall>t. t < now + 24 * 60 * 60 \<longrightarrow>
      jwt_verify t (jwt_sign now payload secret expiresIn) secret = Inr payload) \<and>
   (\<forall>t. now + 24 * 60 * 60 \<le> t \<longrightarrow>
      jwt_verify t (jwt_sign now payload secret expiresIn) secret = Inl Expired) \<and>
   (\<forall>t c iat exp. exp \<le> t \<longrightarrow> jwt_verify t (Token c iat exp secret) secret = Inl Expired)"
proof -
  have "\<forall>n tok view. login (jwt_sign now) compare secret uname pw s = Ok n (tok, view) \<longrightarrow>
      tok_claims tok = view \<and> tok_exp tok = now + 24 * 60 * 60"
    by (auto dest!: login_token simp: jwt_sign_def expiresIn_def)
  then show ?thesis
    by (simp add: jwt_sign_def jwt_verify_def expiresIn_def)
qed

theorem token_issuance_and_expiry_witness:
  "login (jwt_sign 1000) toy_compare ''k'' (Some ''alice'') (Some ''pw1'') db3 =
     Ok 200 (Token alice 1000 87400 ''k'', alice) \<and>
   (87399::nat) < 1000 + 24 * 60 * 60 \<and>
   jwt_verify 87399 (jwt_sign 1000 alice ''k'' expiresIn) ''k'' = Inr alice \<and>
   (1000::nat) + 24 * 60 * 60 \<le> 87400 \<and>
   jwt_verify 87400 (jwt_sign 1000 alice ''k'' expiresIn) ''k'' = Inl Expired \<and>
   jwt_verify 87400 (Token alice 1000 87400 ''k'') ''k'' = Inl Expired"
  using token_issuance_and_expiry
          [of 1000 alice "''k''" toy_compare "Some ''alice''" "Some ''pw1''" db3]
  by (simp add: login_def db3_def where_eq_def limit_def truthy_def toy_hash_def toy_compare_def
        role_or_user_def alice_def jwt_sign_def jwt_verify_def expiresIn_def Let_def)

section \<open>External-identity login: which account\<close>

lemma split_on_not_Nil: "split_on c str \<noteq> []"
  by (induction str) (auto split: list.splits)

lemma new_username_None:
  "new_username p = None \<longleftrightarrow> \<not> truthy (p_name p) \<and> p_email p = None"
  using split_on_not_Nil [of "CHR ''@''"]
  by (auto simp: new_username_def truthy_def split: option.splits list.splits)

text \<open>Step 1: a user with the external subject id is used, and nothing is written.\<close>

lemma resolve_by_subject:
  "limit 1 (where_eq google_id (Some (p_sub p)) (usersCol s)) = userDoc # rest \<Longrightarrow>
   resolve_account p newId pos now s = (Some userDoc, s)"
  by (simp add: resolve_account_def)

text \<open>Step 2: otherwise a user with the profile's email is used, and the external
  subject id is set on that record.\<close>

lemma resolve_by_email:
  "limit 1 (where_eq google_id (Some (p_sub p)) (usersCol s)) = [] \<Longrightarrow> truthy (p_email p) \<Longrightarrow>
   limit 1 (where_eq email (p_email p) (usersCol s)) = (docId, userData) # rest \<Longrightarrow>
   resolve_account p newId pos now s =
     (Some (docId, userData),
      s\<lparr>usersCol := doc_update (usersCol s) docId (\<lambda>u. u\<lparr>google_id := Some (p_sub p)\<rparr>)\<rparr>)"
  by (simp add: resolve_account_def)

text \<open>Step 3: otherwise, when the profile has a name or an email, a user is created
  with role \<^verbatim>\<open>user\<close>, the external subject id and the avatar, and no password.\<close>

lemma resolve_new_user:
  "limit 1 (where_eq google_id (Some (p_sub p)) (usersCol s)) = [] \<Longrightarrow>
   \<not> truthy (p_email p) \<or> limit 1 (where_eq email (p_email p) (usersCol s)) = [] \<Longrightarrow>
   new_username p = Some uname \<Longrightarrow>
   \<exists>d. resolve_account p newId pos now s =
         (Some (newId, d), s\<lparr>usersCol := col_add (usersCol s) pos newId d\<rparr>) \<and>
       username d = uname \<and> role d = Some ''user'' \<and> google_id d = Some (p_sub p) \<and>
       avatar d = or_null (p_picture p) \<and> email d = or_null (p_email p) \<and> password d = None"
  by (auto simp: resolve_account_def Let_def)

text \<open>With neither a name nor an email, step 3 throws before anything is written.\<close>

lemma resolve_throws:
  "limit 1 (where_eq google_id (Some (p_sub p)) (usersCol s)) = [] \<Longrightarrow>
   \<not> truthy (p_name p) \<Longrightarrow> p_email p = None \<Longrightarrow>
   resolve_account p newId pos now s = (None, s)"
  by (simp add: resolve_account_def new_username_def truthy_def)

text \<open>
  C4 at a failing input. The profile has a subject id and a picture, no name and no
  email, and no user has that subject id. The claim's step 3 creates a user; the
  handler throws on \<^verbatim>\<open>email.split\<close>, answers 500 and creates none.
\<close>

theorem google_login_without_name_and_email:
  "resolve_account bare_profile ''u9'' 0 (Timestamp 50 0) db3 = (None, db3) \<and>
   google_callback (jwt_sign 1000) (\<lambda>code. Some bare_profile) ''k'' (Some ''c0de'') ''u9'' 0
       (Timestamp 50 0) db3 =
     (Error 500 ''Authentication failed'', db3)"
  by (simp add: google_callback_def resolve_account_def bare_profile_def db3_def where_eq_def
        limit_def truthy_def new_username_def)

end
